theory Spec2Isabelle
  imports Main "HOL-Library.AList" "HOL-Library.Word"
begin

unbundle bit_operations_syntax

section \<open>The EJDB Node.js wrapper (src/ejdb.js)\<close>

text \<open>
  The wrapper sits between application code and the native engine object \<open>_impl\<close>.
  Its methods shuffle a variable number of arguments, check them, and hand a request to
  the engine together with a callback; the engine invokes the callback later.

  The model keeps these two halves apart. A public method is a function from the
  argument list (whose length is \<open>arguments.length\<close>) and the current world to either a
  thrown exception or the engine call it makes (\<open>dispatch\<close>), with the updated world. A
  callback the wrapper builds is a value of type \<open>callback\<close>; \<open>invoke\<close> says what happens
  when the engine calls it.
\<close>

subsection \<open>JavaScript values\<close>

text \<open>
  Plain objects live in a store and are referred to by address, since the wrapper
  assigns to properties of objects the caller still holds. Arrays are never mutated by
  the wrapper (\<open>concat\<close> and \<open>[jsarr]\<close> build new ones), so they are values; an array
  carries no named properties of its own. Functions are opaque handler identifiers
  (the built-in constructors are not among the values, so \<open>x.constructor === Array\<close>
  holds exactly for arrays). Numbers are integers. A cursor is a native object of the
  engine, referred to by its identifier.
\<close>

type_synonym addr = nat

datatype jsval =
    JUndefined
  | JNull
  | JBool bool
  | JNum int
  | JStr string
  | JArr "jsval list"
  | JObj addr
  | JFun nat
  | JCursor nat

datatype exn =
    Error string        \<comment> \<open>\<open>throw new Error(msg)\<close>\<close>
  | TypeError           \<comment> \<open>property access on null or undefined, call of a non-function\<close>
  | Thrown jsval        \<comment> \<open>whatever a user handler throws\<close>

type_synonym props = "(string \<times> jsval) list"

text \<open>
  Modelled from the spec: the cursor is implemented by the native engine, which is not
  part of the source. The documentation comment of \<open>find\<close> gives its contract:
  \<open>next()\<close> moves to the next record and returns true if there is one, \<open>object()\<close>
  retrieves the current record, \<open>close()\<close> closes the cursor. \<open>closes\<close> counts the
  calls of \<open>close()\<close>.
\<close>

record cursor =
  pending :: "jsval list"
  current :: jsval
  closes :: nat

datatype event =
    Call nat "jsval list"   \<comment> \<open>a user handler was invoked with these arguments\<close>
  | CursorNext nat
  | CursorObject nat
  | CursorClose nat

record world =
  heap :: "props list"            \<comment> \<open>object at address \<open>a\<close> is \<open>heap ! a\<close>\<close>
  cursors :: "nat \<Rightarrow> cursor"
  trace :: "event list"

text \<open>
  The constants exported by the native library; their values are not part of the source.
\<close>

type_synonym flags = "32 word"

record ejdblib =
  JBQRYCOUNT :: flags
  JBIDXDROPALL :: flags
  JBIDXOP :: flags
  JBIDXSTR :: flags
  JBIDXISTR :: flags
  JBIDXNUM :: flags
  JBIDXARR :: flags
  JBIDXREBLD :: flags
  JBIDXDROP :: flags

subsection \<open>Primitive operations of the language\<close>

definition arg :: "jsval list \<Rightarrow> nat \<Rightarrow> jsval" where
  \<comment> \<open>a formal parameter that received no argument is \<open>undefined\<close>\<close>
  "arg args i = (if i < length args then args ! i else JUndefined)"

fun truthy :: "jsval \<Rightarrow> bool" where
  "truthy JUndefined = False"
| "truthy JNull = False"
| "truthy (JBool b) = b"
| "truthy (JNum n) = (n \<noteq> 0)"
| "truthy (JStr s) = (s \<noteq> [])"
| "truthy (JArr xs) = True"
| "truthy (JObj a) = True"
| "truthy (JFun f) = True"
| "truthy (JCursor c) = True"

fun typeof :: "jsval \<Rightarrow> string" where
  "typeof JUndefined = ''undefined''"
| "typeof JNull = ''object''"
| "typeof (JBool b) = ''boolean''"
| "typeof (JNum n) = ''number''"
| "typeof (JStr s) = ''string''"
| "typeof (JArr xs) = ''object''"
| "typeof (JObj a) = ''object''"
| "typeof (JFun f) = ''function''"
| "typeof (JCursor c) = ''object''"

fun nullish :: "jsval \<Rightarrow> bool" where
  \<comment> \<open>\<open>v == null\<close>\<close>
  "nullish JUndefined = True"
| "nullish JNull = True"
| "nullish v = False"

fun is_array :: "jsval \<Rightarrow> bool" where
  \<comment> \<open>\<open>v.constructor === Array\<close>, for a truthy \<open>v\<close>\<close>
  "is_array (JArr xs) = True"
| "is_array v = False"

definition alloc :: "props \<Rightarrow> world \<Rightarrow> jsval \<times> world" where
  \<comment> \<open>an object literal: a new object at the next free address\<close>
  "alloc ps w = (JObj (length (heap w)), w\<lparr>heap := heap w @ [ps]\<rparr>)"

definition look :: "world \<Rightarrow> addr \<Rightarrow> props option" where
  "look w a = (if a < length (heap w) then Some (heap w ! a) else None)"

definition prop_of :: "world \<Rightarrow> addr \<Rightarrow> string \<Rightarrow> jsval" where
  \<comment> \<open>the value of a property of a stored object, \<open>undefined\<close> when absent\<close>
  "prop_of w a k =
     (case look w a of
        None \<Rightarrow> JUndefined
      | Some ps \<Rightarrow> (case map_of ps k of None \<Rightarrow> JUndefined | Some v \<Rightarrow> v))"

fun get_prop :: "world \<Rightarrow> jsval \<Rightarrow> string \<Rightarrow> exn + jsval" where
  \<comment> \<open>\<open>v[k]\<close> for the named keys the wrapper reads (\<open>$onlycount\<close>, \<open>_id\<close>)\<close>
  "get_prop w JUndefined k = Inl TypeError"
| "get_prop w JNull k = Inl TypeError"
| "get_prop w (JObj a) k = Inr (prop_of w a k)"
| "get_prop w v k = Inr JUndefined"

fun set_prop :: "jsval \<Rightarrow> string \<Rightarrow> jsval \<Rightarrow> world \<Rightarrow> exn option \<times> world" where
  \<comment> \<open>\<open>v[k] = x\<close>; outside strict mode an assignment to a property of a primitive is
      ignored. An existing key keeps its place, a new key goes last.\<close>
  "set_prop JUndefined k x w = (Some TypeError, w)"
| "set_prop JNull k x w = (Some TypeError, w)"
| "set_prop (JObj a) k x w =
     (case look w a of
        None \<Rightarrow> (None, w)
      | Some ps \<Rightarrow> (None, w\<lparr>heap := (heap w)[a := AList.update k x ps]\<rparr>))"
| "set_prop v k x w = (None, w)"

definition concat_js :: "jsval list \<Rightarrow> jsval list \<Rightarrow> jsval list" where
  \<comment> \<open>\<open>xs.concat(a, b, ...)\<close>: an array argument is spread, any other value is appended\<close>
  "concat_js xs vs = xs @ concat (map (\<lambda>v. case v of JArr ys \<Rightarrow> ys | _ \<Rightarrow> [v]) vs)"

subsection \<open>What the wrapper hands to the engine\<close>

datatype callback =
    UserCb jsval                  \<comment> \<open>the caller's value, passed on as it is\<close>
  | EmptyCb                       \<comment> \<open>\<open>function() {}\<close> of \<open>removeCollection\<close>\<close>
  | SaveCb "jsval list" jsval     \<comment> \<open>the closure of \<open>save\<close>, over \<open>jsarr\<close> and \<open>cb\<close>\<close>
  | FindOneCb jsval               \<comment> \<open>the closure of \<open>findOne\<close>, over \<open>cb\<close>\<close>
  | UpdateCb jsval                \<comment> \<open>the closure of \<open>update\<close>, over \<open>cb\<close>\<close>
  | CountCb jsval                 \<comment> \<open>the closure of \<open>count\<close>, over \<open>cb\<close>\<close>

datatype dispatch =
    RemoveCollection jsval bool callback
  | Save jsval "jsval list" jsval callback
  | Load jsval jsval callback
  | Remove jsval jsval callback
  | Query jsval "jsval list" flags callback
  | Sync callback
  | SetIndex jsval jsval flags callback

subsection \<open>The argument shuffle of find, findOne, update and count\<close>

text \<open>
  The first statement of the four query methods is the same text: with four arguments
  the last is the handler and the third is \<open>orarr\<close> or \<open>hints\<close>; with three the third is
  the handler. The result is \<open>(orarr, hints, cb)\<close>.
\<close>

definition shuffle :: "jsval list \<Rightarrow> world \<Rightarrow> (jsval \<times> jsval \<times> jsval) \<times> world" where
  "shuffle args w =
     (let orarr = arg args 2; hints = arg args 3; cb = arg args 4 in
      if length args = 4 then
        (if truthy orarr \<and> is_array orarr
         then (let (h, w') = alloc [] w in ((orarr, h, hints), w'))
         else ((JArr [], orarr, hints), w))
      else if length args = 3 then
        (let (h, w') = alloc [] w in ((JArr [], h, orarr), w'))
      else ((orarr, hints, cb), w))"

definition default_obj :: "jsval \<Rightarrow> world \<Rightarrow> jsval \<times> world" where
  \<comment> \<open>\<open>if (!v || typeof v !== "object") { v = {}; }\<close>\<close>
  "default_obj v w = (if \<not> truthy v \<or> typeof v \<noteq> ''object'' then alloc [] w else (v, w))"

definition find_ejdb :: "ejdblib \<Rightarrow> jsval list \<Rightarrow> world \<Rightarrow> (exn + dispatch) \<times> world" where
  "find_ejdb lib args w =
     (let cname = arg args 0; qobj = arg args 1;
          ((orarr, hints, cb), w1) = shuffle args w in
      if typeof cb \<noteq> ''function''
      then (Inl (Error ''Callback 'cb' argument must be specified''), w1)
      else if typeof cname \<noteq> ''string''
      then (Inl (Error ''Collection name 'cname' argument must be specified''), w1)
      else
        (let (hints, w2) = default_obj hints w1;
             (qobj, w3) = default_obj qobj w2 in
         case get_prop w3 hints ''$onlycount'' of
           Inl e \<Rightarrow> (Inl e, w3)
         | Inr oc \<Rightarrow>
             (Inr (Query cname (concat_js [qobj] [orarr, hints])
                    (if truthy oc then JBQRYCOUNT lib else 0) (UserCb cb)), w3)))"


definition findOne :: "ejdblib \<Rightarrow> jsval list \<Rightarrow> world \<Rightarrow> (exn + dispatch) \<times> world" where
  "findOne lib args w =
     (let cname = arg args 0; qobj = arg args 1;
          ((orarr, hints, cb), w1) = shuffle args w in
      if typeof cb \<noteq> ''function''
      then (Inl (Error ''Callback 'cb' argument must be specified''), w1)
      else if typeof cname \<noteq> ''string''
      then (Inl (Error ''Collection name 'cname' argument must be specified''), w1)
      else
        (let (hints, w2) = default_obj hints w1;
             (qobj, w3) = default_obj qobj w2 in
         case set_prop hints ''$max'' (JNum 1) w3 of
           (Some e, w4) \<Rightarrow> (Inl e, w4)
         | (None, w4) \<Rightarrow>
             (Inr (Query cname (concat_js [qobj] [orarr, hints]) 0 (FindOneCb cb)), w4)))"

definition update :: "ejdblib \<Rightarrow> jsval list \<Rightarrow> world \<Rightarrow> (exn + dispatch) \<times> world" where
  "update lib args w =
     (let cname = arg args 0; qobj = arg args 1;
          ((orarr, hints, cb), w1) = shuffle args w;
          cb = (if typeof cb \<noteq> ''function'' then JNull else cb) in
      if typeof cname \<noteq> ''string''
      then (Inl (Error ''Collection name 'cname' argument must be specified''), w1)
      else
        (let (hints, w2) = default_obj hints w1;
             (qobj, w3) = default_obj qobj w2 in
         (Inr (Query cname (concat_js [qobj] [orarr, hints]) (JBQRYCOUNT lib) (UpdateCb cb)),
          w3)))"

definition count :: "ejdblib \<Rightarrow> jsval list \<Rightarrow> world \<Rightarrow> (exn + dispatch) \<times> world" where
  "count lib args w =
     (let cname = arg args 0; qobj = arg args 1;
          ((orarr, hints, cb), w1) = shuffle args w in
      if typeof cb \<noteq> ''function''
      then (Inl (Error ''Callback 'cb' argument must be specified''), w1)
      else if typeof cname \<noteq> ''string''
      then (Inl (Error ''Collection name 'cname' argument must be specified''), w1)
      else
        (let (hints, w2) = default_obj hints w1;
             (qobj, w3) = default_obj qobj w2 in
         (Inr (Query cname (concat_js [qobj] [orarr, hints]) (JBQRYCOUNT lib) (CountCb cb)),
          w3)))"

subsection \<open>save\<close>

text \<open>
  \<open>save\<close> returns without doing anything when \<open>jsarr\<close> is falsy: the result \<open>None\<close>.
\<close>

definition save :: "jsval list \<Rightarrow> world \<Rightarrow> (exn + dispatch option) \<times> world" where
  "save args w =
     (let cname = arg args 0; jsarr = arg args 1; opts = arg args 2; cb = arg args 3 in
      if \<not> truthy jsarr then (Inr None, w)
      else
        (let jsarr = (case jsarr of JArr xs \<Rightarrow> xs | v \<Rightarrow> [v]);
             (cb, opts) = (if typeof opts = ''function'' then (opts, JNull) else (cb, opts));
             (opts, w1) = (if truthy opts then (opts, w) else alloc [] w) in
         (Inr (Some (Save cname jsarr opts (SaveCb jsarr cb))), w1)))"

subsection \<open>The pass-through methods\<close>

definition removeCollection :: "jsval list \<Rightarrow> dispatch" where
  "removeCollection args =
     (let cname = arg args 0; prune = arg args 1; cb = arg args 2;
          (prune, cb) = (if length args = 2 then (JBool False, prune) else (prune, cb)) in
      RemoveCollection cname (truthy prune) (if \<not> truthy cb then EmptyCb else UserCb cb))"

definition load :: "jsval list \<Rightarrow> dispatch" where
  "load args = Load (arg args 0) (arg args 1) (UserCb (arg args 2))"

definition remove :: "jsval list \<Rightarrow> dispatch" where
  "remove args = Remove (arg args 0) (arg args 1) (UserCb (arg args 2))"

definition sync :: "jsval list \<Rightarrow> dispatch" where
  "sync args = Sync (UserCb (arg args 0))"

definition dropIndexes :: "ejdblib \<Rightarrow> jsval list \<Rightarrow> dispatch" where
  "dropIndexes lib args =
     SetIndex (arg args 0) (arg args 1) (JBIDXDROPALL lib) (UserCb (arg args 2))"

definition optimizeIndexes :: "ejdblib \<Rightarrow> jsval list \<Rightarrow> dispatch" where
  "optimizeIndexes lib args =
     SetIndex (arg args 0) (arg args 1) (JBIDXOP lib) (UserCb (arg args 2))"

definition ensureStringIndex :: "ejdblib \<Rightarrow> jsval list \<Rightarrow> dispatch" where
  "ensureStringIndex lib args =
     SetIndex (arg args 0) (arg args 1) (JBIDXSTR lib) (UserCb (arg args 2))"

definition rebuildStringIndex :: "ejdblib \<Rightarrow> jsval list \<Rightarrow> dispatch" where
  "rebuildStringIndex lib args =
     SetIndex (arg args 0) (arg args 1) (JBIDXSTR lib OR JBIDXREBLD lib) (UserCb (arg args 2))"

definition dropStringIndex :: "ejdblib \<Rightarrow> jsval list \<Rightarrow> dispatch" where
  "dropStringIndex lib args =
     SetIndex (arg args 0) (arg args 1) (JBIDXSTR lib OR JBIDXDROP lib) (UserCb (arg args 2))"

definition ensureIStringIndex :: "ejdblib \<Rightarrow> jsval list \<Rightarrow> dispatch" where
  "ensureIStringIndex lib args =
     SetIndex (arg args 0) (arg args 1) (JBIDXISTR lib) (UserCb (arg args 2))"

definition rebuildIStringIndex :: "ejdblib \<Rightarrow> jsval list \<Rightarrow> dispatch" where
  "rebuildIStringIndex lib args =
     SetIndex (arg args 0) (arg args 1) (JBIDXISTR lib OR JBIDXREBLD lib) (UserCb (arg args 2))"

definition dropIStringIndex :: "ejdblib \<Rightarrow> jsval list \<Rightarrow> dispatch" where
  "dropIStringIndex lib args =
     SetIndex (arg args 0) (arg args 1) (JBIDXISTR lib OR JBIDXDROP lib) (UserCb (arg args 2))"

definition ensureNumberIndex :: "ejdblib \<Rightarrow> jsval list \<Rightarrow> dispatch" where
  "ensureNumberIndex lib args =
     SetIndex (arg args 0) (arg args 1) (JBIDXNUM lib) (UserCb (arg args 2))"

definition rebuildNumberIndex :: "ejdblib \<Rightarrow> jsval list \<Rightarrow> dispatch" where
  "rebuildNumberIndex lib args =
     SetIndex (arg args 0) (arg args 1) (JBIDXNUM lib OR JBIDXREBLD lib) (UserCb (arg args 2))"

definition dropNumberIndex :: "ejdblib \<Rightarrow> jsval list \<Rightarrow> dispatch" where
  "dropNumberIndex lib args =
     SetIndex (arg args 0) (arg args 1) (JBIDXNUM lib OR JBIDXDROP lib) (UserCb (arg args 2))"

definition ensureArrayIndex :: "ejdblib \<Rightarrow> jsval list \<Rightarrow> dispatch" where
  "ensureArrayIndex lib args =
     SetIndex (arg args 0) (arg args 1) (JBIDXARR lib) (UserCb (arg args 2))"

definition rebuildArrayIndex :: "ejdblib \<Rightarrow> jsval list \<Rightarrow> dispatch" where
  "rebuildArrayIndex lib args =
     SetIndex (arg args 0) (arg args 1) (JBIDXARR lib OR JBIDXREBLD lib) (UserCb (arg args 2))"

definition dropArrayIndex :: "ejdblib \<Rightarrow> jsval list \<Rightarrow> dispatch" where
  "dropArrayIndex lib args =
     SetIndex (arg args 0) (arg args 1) (JBIDXARR lib OR JBIDXDROP lib) (UserCb (arg args 2))"

subsection \<open>Calls made by the callbacks\<close>

text \<open>
  A user handler is opaque: \<open>hb f xs\<close> says whether handler \<open>f\<close>, called with the
  arguments \<open>xs\<close>, returns (\<open>None\<close>) or throws. Every call of a handler is recorded in
  the trace. Calling a value that is not a function is a TypeError.
\<close>

type_synonym handlers = "nat \<Rightarrow> jsval list \<Rightarrow> exn option"

fun call_fn :: "handlers \<Rightarrow> jsval \<Rightarrow> jsval list \<Rightarrow> world \<Rightarrow> exn option \<times> world" where
  "call_fn hb (JFun f) xs w = (hb f xs, w\<lparr>trace := trace w @ [Call f xs]\<rparr>)"
| "call_fn hb v xs w = (Some TypeError, w)"

text \<open>
  Modelled from the spec: the three cursor methods the wrapper calls, after the contract
  in the documentation comment of \<open>find\<close>. The engine passes a cursor or nothing (null,
  undefined); calling a method on anything but a cursor is a TypeError.
\<close>

fun cursor_next :: "jsval \<Rightarrow> world \<Rightarrow> (exn + bool) \<times> world" where
  "cursor_next (JCursor c) w =
     (let cur = cursors w c; w1 = w\<lparr>trace := trace w @ [CursorNext c]\<rparr> in
      case pending cur of
        [] \<Rightarrow> (Inr False, w1)
      | d # ds \<Rightarrow>
          (Inr True, w1\<lparr>cursors := (cursors w)(c := cur\<lparr>pending := ds, current := d\<rparr>)\<rparr>))"
| "cursor_next v w = (Inl TypeError, w)"

fun cursor_object :: "jsval \<Rightarrow> world \<Rightarrow> (exn + jsval) \<times> world" where
  "cursor_object (JCursor c) w =
     (Inr (current (cursors w c)), w\<lparr>trace := trace w @ [CursorObject c]\<rparr>)"
| "cursor_object v w = (Inl TypeError, w)"

fun cursor_close :: "jsval \<Rightarrow> world \<Rightarrow> exn option \<times> world" where
  "cursor_close (JCursor c) w =
     (None, w\<lparr>cursors := (cursors w)(c := (cursors w c)\<lparr>closes := Suc (closes (cursors w c))\<rparr>),
              trace := trace w @ [CursorClose c]\<rparr>)"
| "cursor_close v w = (Some TypeError, w)"

subsection \<open>The callback of save\<close>

fun dec :: "nat \<Rightarrow> string" where
  \<comment> \<open>the property name of an index\<close>
  "dec n = (if n < 10 then [char_of (48 + n)] else dec (n div 10) @ [char_of (48 + n mod 10)])"

fun index_js :: "world \<Rightarrow> jsval \<Rightarrow> nat \<Rightarrow> exn + jsval" where
  \<comment> \<open>\<open>v[i]\<close>\<close>
  "index_js w JUndefined i = Inl TypeError"
| "index_js w JNull i = Inl TypeError"
| "index_js w (JArr xs) i = Inr (arg xs i)"
| "index_js w (JStr s) i = Inr (if i < length s then JStr [s ! i] else JUndefined)"
| "index_js w (JObj a) i = Inr (prop_of w a (dec i))"
| "index_js w v i = Inr JUndefined"

definition assign_id :: "jsval \<Rightarrow> jsval \<Rightarrow> nat \<Rightarrow> world \<Rightarrow> exn option \<times> world" where
  \<comment> \<open>the body of the loop, for \<open>so = jsarr[i]\<close>. \<open>!==\<close> is identity on objects (their
      addresses) and equality on primitive values; on arrays, held here by value, it is
      equality of contents, and the assigned value is the same either way.\<close>
  "assign_id so oids i w =
     (if nullish so then (None, w)
      else case get_prop w so ''_id'' of
        Inl e \<Rightarrow> (Some e, w)
      | Inr v \<Rightarrow>
          (case index_js w oids i of
             Inl e \<Rightarrow> (Some e, w)
           | Inr oid \<Rightarrow> if v \<noteq> oid then set_prop so ''_id'' oid w else (None, w)))"

fun assign_ids :: "jsval list \<Rightarrow> jsval \<Rightarrow> nat \<Rightarrow> world \<Rightarrow> exn option \<times> world" where
  \<comment> \<open>\<open>for (var i = n - 1; i >= 0; --i)\<close>, started with \<open>n = jsarr.length\<close>\<close>
  "assign_ids jsarr oids 0 w = (None, w)"
| "assign_ids jsarr oids (Suc i) w =
     (case assign_id (arg jsarr i) oids i w of
        (Some e, w1) \<Rightarrow> (Some e, w1)
      | (None, w1) \<Rightarrow> assign_ids jsarr oids i w1)"

definition save_cb ::
  "handlers \<Rightarrow> jsval list \<Rightarrow> jsval \<Rightarrow> jsval list \<Rightarrow> world \<Rightarrow> exn option \<times> world" where
  "save_cb hb jsarr cb eargs w =
     (let err = arg eargs 0; oids = arg eargs 1 in
      if truthy err then (if truthy cb then call_fn hb cb [err] w else (None, w))
      else case assign_ids jsarr oids (length jsarr) w of
        (Some e, w1) \<Rightarrow> (Some e, w1)
      | (None, w1) \<Rightarrow> if truthy cb then call_fn hb cb [err, oids] w1 else (None, w1))"

subsection \<open>The callbacks of findOne, update and count\<close>

definition findOne_cb ::
  "handlers \<Rightarrow> jsval \<Rightarrow> jsval list \<Rightarrow> world \<Rightarrow> exn option \<times> world" where
  "findOne_cb hb cb eargs w =
     (let err = arg eargs 0; cursor = arg eargs 1 in
      if truthy err then call_fn hb cb [err] w
      else case cursor_next cursor w of
        (Inl e, w1) \<Rightarrow> (Some e, w1)
      | (Inr True, w1) \<Rightarrow>
          \<comment> \<open>\<open>try { cb(null, cursor.object()); } finally { cursor.close(); }\<close>\<close>
          (let (r, w2) =
                 (case cursor_object cursor w1 of
                    (Inl e, w2) \<Rightarrow> (Some e, w2)
                  | (Inr obj, w2) \<Rightarrow> call_fn hb cb [JNull, obj] w2);
               (rc, w3) = cursor_close cursor w2 in
           (case rc of Some e \<Rightarrow> (Some e, w3) | None \<Rightarrow> (r, w3)))
      | (Inr False, w1) \<Rightarrow> call_fn hb cb [JNull, JNull] w1)"

definition update_cb ::
  "handlers \<Rightarrow> jsval \<Rightarrow> jsval list \<Rightarrow> world \<Rightarrow> exn option \<times> world" where
  "update_cb hb cb eargs w =
     (let err = arg eargs 0; cursor = arg eargs 1; cnt = arg eargs 2; log = arg eargs 3 in
      if truthy err then call_fn hb cb [err, JNull, log] w
      else call_fn hb cb [JNull, cnt, log] w)"

definition count_cb ::
  "handlers \<Rightarrow> jsval \<Rightarrow> jsval list \<Rightarrow> world \<Rightarrow> exn option \<times> world" where
  "count_cb hb cb eargs w =
     (let err = arg eargs 0; cursor = arg eargs 1; cnt = arg eargs 2 in
      if truthy err then call_fn hb cb [err] w
      else case cursor_close cursor w of
        (Some e, w1) \<Rightarrow> (Some e, w1)
      | (None, w1) \<Rightarrow> call_fn hb cb [JNull, cnt] w1)"

subsection \<open>The engine calls a callback\<close>

fun invoke :: "handlers \<Rightarrow> callback \<Rightarrow> jsval list \<Rightarrow> world \<Rightarrow> exn option \<times> world" where
  "invoke hb (UserCb cb) eargs w = call_fn hb cb eargs w"
| "invoke hb EmptyCb eargs w = (None, w)"
| "invoke hb (SaveCb jsarr cb) eargs w = save_cb hb jsarr cb eargs w"
| "invoke hb (FindOneCb cb) eargs w = findOne_cb hb cb eargs w"
| "invoke hb (UpdateCb cb) eargs w = update_cb hb cb eargs w"
| "invoke hb (CountCb cb) eargs w = count_cb hb cb eargs w"

declare dec.simps [simp del]

subsection \<open>All public methods with a terminal handler\<close>

datatype public_op =
    M_removeCollection | M_save | M_load | M_remove | M_find | M_findOne | M_update | M_count
  | M_sync | M_dropIndexes | M_optimizeIndexes
  | M_ensureStringIndex | M_rebuildStringIndex | M_dropStringIndex
  | M_ensureIStringIndex | M_rebuildIStringIndex | M_dropIStringIndex
  | M_ensureNumberIndex | M_rebuildNumberIndex | M_dropNumberIndex
  | M_ensureArrayIndex | M_rebuildArrayIndex | M_dropArrayIndex

fun dispatched :: "(exn + dispatch) \<times> world \<Rightarrow> (exn + dispatch option) \<times> world" where
  "dispatched (Inl e, w) = (Inl e, w)"
| "dispatched (Inr d, w) = (Inr (Some d), w)"

fun call_op ::
  "ejdblib \<Rightarrow> public_op \<Rightarrow> jsval list \<Rightarrow> world \<Rightarrow> (exn + dispatch option) \<times> world" where
  "call_op lib M_removeCollection args w = (Inr (Some (removeCollection args)), w)"
| "call_op lib M_save args w = save args w"
| "call_op lib M_load args w = (Inr (Some (load args)), w)"
| "call_op lib M_remove args w = (Inr (Some (remove args)), w)"
| "call_op lib M_find args w = dispatched (find_ejdb lib args w)"
| "call_op lib M_findOne args w = dispatched (findOne lib args w)"
| "call_op lib M_update args w = dispatched (update lib args w)"
| "call_op lib M_count args w = dispatched (count lib args w)"
| "call_op lib M_sync args w = (Inr (Some (sync args)), w)"
| "call_op lib M_dropIndexes args w = (Inr (Some (dropIndexes lib args)), w)"
| "call_op lib M_optimizeIndexes args w = (Inr (Some (optimizeIndexes lib args)), w)"
| "call_op lib M_ensureStringIndex args w = (Inr (Some (ensureStringIndex lib args)), w)"
| "call_op lib M_rebuildStringIndex args w = (Inr (Some (rebuildStringIndex lib args)), w)"
| "call_op lib M_dropStringIndex args w = (Inr (Some (dropStringIndex lib args)), w)"
| "call_op lib M_ensureIStringIndex args w = (Inr (Some (ensureIStringIndex lib args)), w)"
| "call_op lib M_rebuildIStringIndex args w = (Inr (Some (rebuildIStringIndex lib args)), w)"
| "call_op lib M_dropIStringIndex args w = (Inr (Some (dropIStringIndex lib args)), w)"
| "call_op lib M_ensureNumberIndex args w = (Inr (Some (ensureNumberIndex lib args)), w)"
| "call_op lib M_rebuildNumberIndex args w = (Inr (Some (rebuildNumberIndex lib args)), w)"
| "call_op lib M_dropNumberIndex args w = (Inr (Some (dropNumberIndex lib args)), w)"
| "call_op lib M_ensureArrayIndex args w = (Inr (Some (ensureArrayIndex lib args)), w)"
| "call_op lib M_rebuildArrayIndex args w = (Inr (Some (rebuildArrayIndex lib args)), w)"
| "call_op lib M_dropArrayIndex args w = (Inr (Some (dropArrayIndex lib args)), w)"

fun callback_of :: "dispatch \<Rightarrow> callback" where
  "callback_of (RemoveCollection c p k) = k"
| "callback_of (Save c docs opts k) = k"
| "callback_of (Load c oid k) = k"
| "callback_of (Remove c oid k) = k"
| "callback_of (Query c req m k) = k"
| "callback_of (Sync k) = k"
| "callback_of (SetIndex c p fl k) = k"

fun handler_of :: "callback \<Rightarrow> jsval" where
  \<comment> \<open>the caller's handler a callback ends in\<close>
  "handler_of (UserCb cb) = cb"
| "handler_of EmptyCb = JUndefined"
| "handler_of (SaveCb jsarr cb) = cb"
| "handler_of (FindOneCb cb) = cb"
| "handler_of (UpdateCb cb) = cb"
| "handler_of (CountCb cb) = cb"

text \<open>
  \<open>run\<close> is a public call followed by the engine's single invocation of the callback it
  was given, with the arguments \<open>eargs\<close>. A call that throws, or that returns without
  a request to the engine, ends there.
\<close>

definition run ::
  "handlers \<Rightarrow> ejdblib \<Rightarrow> public_op \<Rightarrow> jsval list \<Rightarrow> jsval list \<Rightarrow> world \<Rightarrow> exn option \<times> world" where
  "run hb lib m args eargs w =
     (case call_op lib m args w of
        (Inl e, w1) \<Rightarrow> (Some e, w1)
      | (Inr None, w1) \<Rightarrow> (None, w1)
      | (Inr (Some d), w1) \<Rightarrow> invoke hb (callback_of d) eargs w1)"

subsection \<open>Notions used to state the properties\<close>

definition resolved_cb :: "jsval list \<Rightarrow> jsval" where
  \<comment> \<open>the value that ends up in \<open>cb\<close> after the argument shuffle\<close>
  "resolved_cb args =
     (if length args = 4 then arg args 3 else if length args = 3 then arg args 2 else arg args 4)"

definition grown :: "world \<Rightarrow> world \<Rightarrow> bool" where
  \<comment> \<open>nothing happened but the creation of new objects\<close>
  "grown w w' \<longleftrightarrow>
     take (length (heap w)) (heap w') = heap w \<and> length (heap w) \<le> length (heap w') \<and>
     trace w' = trace w"

definition same_but_heap :: "world \<Rightarrow> world \<Rightarrow> bool" where
  "same_but_heap w w' \<longleftrightarrow>
     length (heap w') = length (heap w) \<and> trace w' = trace w \<and> cursors w' = cursors w"





fun is_call :: "event \<Rightarrow> bool" where
  "is_call (Call f xs) = True"
| "is_call e = False"

definition calls :: "event list \<Rightarrow> event list" where
  \<comment> \<open>the handler invocations of a trace\<close>
  "calls tr = filter is_call tr"

fun is_cursor :: "jsval \<Rightarrow> bool" where
  "is_cursor (JCursor c) = True"
| "is_cursor v = False"

text \<open>
  The engine keeps to the shape of its callbacks: a query that did not fail comes with a
  cursor, a save that did not fail with the array of identifiers.
\<close>

fun engine_ok :: "callback \<Rightarrow> jsval list \<Rightarrow> bool" where
  "engine_ok (SaveCb jsarr cb) eargs = (truthy (arg eargs 0) \<or> is_array (arg eargs 1))"
| "engine_ok (FindOneCb cb) eargs = (truthy (arg eargs 0) \<or> is_cursor (arg eargs 1))"
| "engine_ok (CountCb cb) eargs = (truthy (arg eargs 0) \<or> is_cursor (arg eargs 1))"
| "engine_ok k eargs = True"

subsection \<open>A concrete world\<close>

definition example_lib :: ejdblib where
  "example_lib = \<lparr>JBQRYCOUNT = 1, JBIDXDROPALL = 2, JBIDXOP = 4, JBIDXSTR = 8, JBIDXISTR = 16,
     JBIDXNUM = 32, JBIDXARR = 64, JBIDXREBLD = 128, JBIDXDROP = 256\<rparr>"

definition example_cursors :: "nat \<Rightarrow> cursor" where
  \<comment> \<open>cursor 0 holds two records, every other cursor none\<close>
  "example_cursors c =
     (if c = 0 then \<lparr>pending = [JObj 0, JObj 1], current = JUndefined, closes = 0\<rparr>
      else \<lparr>pending = [], current = JUndefined, closes = 0\<rparr>)"

definition example_world :: world where
  "example_world =
     \<lparr>heap = [[(''name'', JStr ''x'')], [(''$max'', JNum 10), (''$skip'', JNum 2)], []],
      cursors = example_cursors, trace = []\<rparr>"

definition quiet :: handlers where
  \<comment> \<open>handlers that return\<close>
  "quiet f xs = None"

definition failing :: handlers where
  \<comment> \<open>handlers that throw\<close>
  "failing f xs = Some (Thrown (JStr ''boom''))"

section \<open>Properties\<close>

subsection \<open>Values and the store\<close>

lemma typeof_function: "typeof v = ''function'' \<longleftrightarrow> (\<exists>f. v = JFun f)"
  by (cases v) simp_all

lemma is_array_conv: "is_array v \<longleftrightarrow> (\<exists>xs. v = JArr xs)"
  by (cases v) simp_all

lemma is_cursor_conv: "is_cursor v \<longleftrightarrow> (\<exists>c. v = JCursor c)"
  by (cases v) simp_all

lemma grown_refl: "grown w w"
  by (simp add: grown_def)

lemma grown_alloc: "alloc ps w = (v, w') \<Longrightarrow> grown w w'"
  by (auto simp: alloc_def grown_def)

lemma grown_trans:
  assumes "grown w w1" and "grown w1 w2"
  shows "grown w w2"
proof -
  have a: "take (length (heap w)) (heap w1) = heap w" "length (heap w) \<le> length (heap w1)"
    "trace w1 = trace w"
    using assms(1) by (simp_all add: grown_def)
  have b: "take (length (heap w1)) (heap w2) = heap w1" "length (heap w1) \<le> length (heap w2)"
    "trace w2 = trace w1"
    using assms(2) by (simp_all add: grown_def)
  have "take (length (heap w)) (heap w2) =
        take (length (heap w)) (take (length (heap w1)) (heap w2))"
    using a(2) by (simp add: min_def)
  also have "\<dots> = heap w" by (simp only: b(1) a(1))
  finally show ?thesis using a b by (simp add: grown_def)
qed

lemma grown_nth: "grown w w' \<Longrightarrow> a < length (heap w) \<Longrightarrow> heap w' ! a = heap w ! a"
  by (metis grown_def nth_take)

lemma grown_look: "grown w w' \<Longrightarrow> look w a = Some ps \<Longrightarrow> look w' a = Some ps"
  using grown_nth [of w w' a] by (auto simp: look_def grown_def split: if_splits)

lemma look_update_same:
  "look w a = Some ps \<Longrightarrow> look (w\<lparr>heap := (heap w)[a := qs]\<rparr>) a = Some qs"
  by (auto simp: look_def split: if_splits)

lemma look_update_other:
  "b \<noteq> a \<Longrightarrow> look (w\<lparr>heap := (heap w)[a := qs]\<rparr>) b = look w b"
  by (auto simp: look_def)

lemma prop_of_update:
  assumes "look w a = Some ps"
  shows "prop_of (w\<lparr>heap := (heap w)[a := AList.update k x ps]\<rparr>) b k' =
         (if b = a \<and> k' = k then x else prop_of w b k')"
proof (cases "b = a")
  case True
  then show ?thesis using assms by (simp add: prop_of_def look_update_same update_conv')
next
  case False
  then show ?thesis by (simp add: prop_of_def look_update_other)
qed


subsection \<open>The argument shuffle\<close>

lemma shuffle_cb: "snd (snd (fst (shuffle args w))) = resolved_cb args"
  by (simp add: shuffle_def resolved_cb_def Let_def alloc_def split: prod.splits)

lemma grown_shuffle: "shuffle args w = (r, w') \<Longrightarrow> grown w w'"
  by (auto simp: shuffle_def Let_def grown_refl split: if_splits prod.splits dest: grown_alloc)

lemma grown_default_obj: "default_obj v w = (v', w') \<Longrightarrow> grown w w'"
  by (auto simp: default_obj_def grown_refl split: if_splits dest: grown_alloc)

lemma shuffled:
  obtains orarr hints w1 where "shuffle args w = ((orarr, hints, resolved_cb args), w1)"
    and "grown w w1"
proof -
  obtain orarr hints cb w1 where s: "shuffle args w = ((orarr, hints, cb), w1)"
    by (metis prod.exhaust)
  have "cb = resolved_cb args" using shuffle_cb [of args w] s by simp
  then show ?thesis using that s grown_shuffle [OF s] by simp
qed

subsection \<open>Normal forms of find\<close>







subsection \<open>Argument checks\<close>

lemma find_throws:
  assumes "typeof (resolved_cb args) \<noteq> ''function'' \<or> typeof (arg args 0) \<noteq> ''string''"
  shows "\<exists>msg w'. find_ejdb lib args w = (Inl (Error msg), w') \<and> grown w w'"
proof -
  obtain orarr hints w1 where "shuffle args w = ((orarr, hints, resolved_cb args), w1)"
    and "grown w w1"
    by (rule shuffled)
  then show ?thesis using assms by (auto simp: find_ejdb_def Let_def)
qed

lemma findOne_throws:
  assumes "typeof (resolved_cb args) \<noteq> ''function'' \<or> typeof (arg args 0) \<noteq> ''string''"
  shows "\<exists>msg w'. findOne lib args w = (Inl (Error msg), w') \<and> grown w w'"
proof -
  obtain orarr hints w1 where "shuffle args w = ((orarr, hints, resolved_cb args), w1)"
    and "grown w w1"
    by (rule shuffled)
  then show ?thesis using assms by (auto simp: findOne_def Let_def)
qed

lemma count_throws:
  assumes "typeof (resolved_cb args) \<noteq> ''function'' \<or> typeof (arg args 0) \<noteq> ''string''"
  shows "\<exists>msg w'. count lib args w = (Inl (Error msg), w') \<and> grown w w'"
proof -
  obtain orarr hints w1 where "shuffle args w = ((orarr, hints, resolved_cb args), w1)"
    and "grown w w1"
    by (rule shuffled)
  then show ?thesis using assms by (auto simp: count_def Let_def)
qed

lemma update_throws:
  assumes "typeof (arg args 0) \<noteq> ''string''"
  shows "\<exists>msg w'. update lib args w = (Inl (Error msg), w') \<and> grown w w'"
proof -
  obtain orarr hints w1 where "shuffle args w = ((orarr, hints, resolved_cb args), w1)"
    and "grown w w1"
    by (rule shuffled)
  then show ?thesis using assms by (auto simp: update_def Let_def)
qed

text \<open>
  Claim C8. When the handler that \<open>find\<close>, \<open>findOne\<close> or \<open>count\<close> resolves is not a
  function, or when the collection name given to \<open>find\<close>, \<open>findOne\<close>, \<open>update\<close> or
  \<open>count\<close> is not a string, the method throws its error (\<open>new Error\<close>, the invalid
  argument condition) in the call itself: no request reaches the engine, no handler is
  invoked, and no existing object is touched.
\<close>

theorem invalid_argument_thrown_synchronously:
  "(typeof (resolved_cb args) \<noteq> ''function'' \<or> typeof (arg args 0) \<noteq> ''string'' \<longrightarrow>
      (\<exists>msg w'. find_ejdb lib args w = (Inl (Error msg), w') \<and> grown w w') \<and>
      (\<exists>msg w'. findOne lib args w = (Inl (Error msg), w') \<and> grown w w') \<and>
      (\<exists>msg w'. count lib args w = (Inl (Error msg), w') \<and> grown w w')) \<and>
   (typeof (arg args 0) \<noteq> ''string'' \<longrightarrow>
      (\<exists>msg w'. update lib args w = (Inl (Error msg), w') \<and> grown w w'))"
  using find_throws [of args lib w] findOne_throws [of args lib w] count_throws [of args lib w]
    update_throws [of args lib w]
  by blast

theorem invalid_argument_thrown_synchronously_witness:
  "typeof (resolved_cb [JNum 5, JObj 0, JObj 1]) \<noteq> ''function'' \<and>
   typeof (arg [JNum 5, JObj 0, JObj 1] 0) \<noteq> ''string'' \<and>
   (\<exists>msg w'. find_ejdb example_lib [JNum 5, JObj 0, JObj 1] example_world = (Inl (Error msg), w')
      \<and> grown example_world w') \<and>
   (\<exists>msg w'. findOne example_lib [JNum 5, JObj 0, JObj 1] example_world = (Inl (Error msg), w')
      \<and> grown example_world w') \<and>
   (\<exists>msg w'. count example_lib [JNum 5, JObj 0, JObj 1] example_world = (Inl (Error msg), w')
      \<and> grown example_world w') \<and>
   (\<exists>msg w'. update example_lib [JNum 5, JObj 0, JObj 1] example_world = (Inl (Error msg), w')
      \<and> grown example_world w')"
proof -
  have h1: "typeof (resolved_cb [JNum 5, JObj 0, JObj 1]) \<noteq> ''function''"
    by (simp add: resolved_cb_def arg_def)
  have h2: "typeof (arg [JNum 5, JObj 0, JObj 1] 0) \<noteq> ''string''"
    by (simp add: arg_def)
  show ?thesis
    using invalid_argument_thrown_synchronously
      [of "[JNum 5, JObj 0, JObj 1]" example_lib example_world] h1 h2
    by blast
qed

subsection \<open>update\<close>

lemma update_dispatch:
  assumes "typeof (arg args 0) = ''string''"
  shows "\<exists>req w1. update lib args w =
           (Inr (Query (arg args 0) req (JBQRYCOUNT lib)
              (UpdateCb (if typeof (resolved_cb args) \<noteq> ''function'' then JNull
                         else resolved_cb args))), w1) \<and> grown w w1"
proof -
  obtain orarr hints w' where s: "shuffle args w = ((orarr, hints, resolved_cb args), w')"
    and g: "grown w w'"
    by (rule shuffled)
  obtain h2 w2 where d1: "default_obj hints w' = (h2, w2)" by (metis prod.exhaust)
  obtain q3 w3 where d2: "default_obj (arg args (Suc 0)) w2 = (q3, w3)" by (metis prod.exhaust)
  have "grown w w3"
    using g grown_default_obj [OF d1] grown_default_obj [OF d2] by (blast intro: grown_trans)
  then show ?thesis using assms
    by (simp add: update_def s Let_def d1 d2)
qed

lemma update_cb_fun:
  "update_cb hb (JFun f) eargs w =
     (if truthy (arg eargs 0)
      then (hb f [arg eargs 0, JNull, arg eargs 3],
            w\<lparr>trace := trace w @ [Call f [arg eargs 0, JNull, arg eargs 3]]\<rparr>)
      else (hb f [JNull, arg eargs 2, arg eargs 3],
            w\<lparr>trace := trace w @ [Call f [JNull, arg eargs 2, arg eargs 3]]\<rparr>))"
  by (simp add: update_cb_def Let_def)

lemma update_cb_null: "update_cb hb JNull eargs w = (Some TypeError, w)"
  by (simp add: update_cb_def Let_def)

text \<open>
  Claim C2. The claim is that \<open>update\<close> without a callable handler discards a failure of
  the engine silently. The code replaces the missing handler by \<open>null\<close> and then calls
  it: once the collection name is a string the call of \<open>update\<close> itself returns with a
  request to the engine, but every invocation of the callback it passes, on failure as on
  success, ends in a TypeError and never completes normally.
\<close>

theorem update_without_handler_raises:
  assumes "typeof (resolved_cb args) \<noteq> ''function''" and "typeof (arg args 0) = ''string''"
  shows "\<exists>req w1. update lib args w =
           (Inr (Query (arg args 0) req (JBQRYCOUNT lib) (UpdateCb JNull)), w1) \<and>
         invoke hb (UpdateCb JNull) eargs w2 = (Some TypeError, w2)"
  using update_dispatch [OF assms(2), of lib w] assms(1) update_cb_null by auto

theorem update_without_handler_raises_witness:
  "typeof (resolved_cb [JStr ''books'', JObj 0]) \<noteq> ''function'' \<and>
   typeof (arg [JStr ''books'', JObj 0] 0) = ''string'' \<and>
   fst (update example_lib [JStr ''books'', JObj 0] example_world) =
     Inr (Query (JStr ''books'') [JObj 0, JUndefined, JObj 3] 1 (UpdateCb JNull)) \<and>
   invoke quiet (UpdateCb JNull) [JStr ''engine failure'', JNull, JNull, JStr ''log'']
     example_world = (Some TypeError, example_world)"
proof -
  have h1: "typeof (resolved_cb [JStr ''books'', JObj 0]) \<noteq> ''function''"
    by (simp add: resolved_cb_def arg_def)
  have h2: "typeof (arg [JStr ''books'', JObj 0] 0) = ''string''"
    by (simp add: arg_def)
  have v: "fst (update example_lib [JStr ''books'', JObj 0] example_world) =
     Inr (Query (JStr ''books'') [JObj 0, JUndefined, JObj 3] 1 (UpdateCb JNull))"
    by (simp add: update_def shuffle_def arg_def Let_def default_obj_def alloc_def concat_js_def
        example_world_def example_lib_def)
  show ?thesis
    using update_without_handler_raises [OF h1 h2, of example_lib example_world quiet
        "[JStr ''engine failure'', JNull, JNull, JStr ''log'']" example_world] h1 h2 v
    by simp
qed

text \<open>
  Claim C9. Every call of \<open>update\<close> that reaches the engine (the collection name is a
  string) sends the count-only flag \<open>JBQRYCOUNT\<close> as mode, whatever the hints are. The
  callback passes the engine's log on to a callable handler on both paths:
  \<open>(null, count, log)\<close> on success and \<open>(error, null, log)\<close> on failure.
\<close>

theorem update_count_only_and_log:
  assumes "typeof (arg args 0) = ''string''"
  shows "(\<exists>req k w1. update lib args w = (Inr (Query (arg args 0) req (JBQRYCOUNT lib) k), w1) \<and>
            (\<forall>f. resolved_cb args = JFun f \<longrightarrow> k = UpdateCb (JFun f))) \<and>
         (truthy err \<longrightarrow>
            invoke hb (UpdateCb (JFun f)) [err, cur, cnt, log] w2 =
              (hb f [err, JNull, log], w2\<lparr>trace := trace w2 @ [Call f [err, JNull, log]]\<rparr>)) \<and>
         (\<not> truthy err \<longrightarrow>
            invoke hb (UpdateCb (JFun f)) [err, cur, cnt, log] w2 =
              (hb f [JNull, cnt, log], w2\<lparr>trace := trace w2 @ [Call f [JNull, cnt, log]]\<rparr>))"
proof -
  have 1: "\<exists>req k w1. update lib args w = (Inr (Query (arg args 0) req (JBQRYCOUNT lib) k), w1) \<and>
            (\<forall>f. resolved_cb args = JFun f \<longrightarrow> k = UpdateCb (JFun f))"
    using update_dispatch [OF assms, of lib w] by auto
  have 2: "truthy err \<longrightarrow>
            invoke hb (UpdateCb (JFun f)) [err, cur, cnt, log] w2 =
              (hb f [err, JNull, log], w2\<lparr>trace := trace w2 @ [Call f [err, JNull, log]]\<rparr>)"
    by (simp add: update_cb_fun arg_def)
  have 3: "\<not> truthy err \<longrightarrow>
            invoke hb (UpdateCb (JFun f)) [err, cur, cnt, log] w2 =
              (hb f [JNull, cnt, log], w2\<lparr>trace := trace w2 @ [Call f [JNull, cnt, log]]\<rparr>)"
    by (simp add: update_cb_fun arg_def)
  show ?thesis using 1 2 3 by blast
qed

theorem update_count_only_and_log_witness:
  "typeof (arg [JStr ''books'', JObj 0, JObj 1, JFun 7] 0) = ''string'' \<and>
   fst (update example_lib [JStr ''books'', JObj 0, JObj 1, JFun 7] example_world) =
     Inr (Query (JStr ''books'') [JObj 0, JObj 1] (JBQRYCOUNT example_lib) (UpdateCb (JFun 7))) \<and>
   trace (snd (invoke quiet (UpdateCb (JFun 7)) [JStr ''failed'', JNull, JNum 0, JStr ''log'']
     example_world)) = [Call 7 [JStr ''failed'', JNull, JStr ''log'']] \<and>
   trace (snd (invoke quiet (UpdateCb (JFun 7)) [JNull, JCursor 0, JNum 3, JStr ''log'']
     example_world)) = [Call 7 [JNull, JNum 3, JStr ''log'']]"
proof -
  have h: "typeof (arg [JStr ''books'', JObj 0, JObj 1, JFun 7] 0) = ''string''"
    by (simp add: arg_def)
  have v: "fst (update example_lib [JStr ''books'', JObj 0, JObj 1, JFun 7] example_world) =
     Inr (Query (JStr ''books'') [JObj 0, JObj 1] (JBQRYCOUNT example_lib) (UpdateCb (JFun 7)))"
    by (simp add: update_def shuffle_def arg_def Let_def default_obj_def concat_js_def
        example_world_def)
  have t: "truthy (JStr ''failed'')" "\<not> truthy JNull" by simp_all
  show ?thesis
    using h v t
      update_count_only_and_log [OF h, of example_lib example_world "JStr ''failed''" quiet 7
        JNull "JNum 0" "JStr ''log''" example_world]
      update_count_only_and_log [OF h, of example_lib example_world JNull quiet 7
        "JCursor 0" "JNum 3" "JStr ''log''" example_world]
    by (simp add: example_world_def)
qed

subsection \<open>findOne and count\<close>

lemma findOne_dispatch:
  assumes "findOne lib args w0 = (Inr d, w1)"
  shows "\<exists>f req. resolved_cb args = JFun f \<and> d = Query (arg args 0) req 0 (FindOneCb (JFun f))"
proof -
  obtain orarr hints w' where s: "shuffle args w0 = ((orarr, hints, resolved_cb args), w')"
    by (rule shuffled)
  show ?thesis using assms
    by (auto simp: findOne_def s Let_def typeof_function split: if_splits prod.splits option.splits)
qed

lemma count_dispatch:
  assumes "count lib args w0 = (Inr d, w1)"
  shows "\<exists>f req. resolved_cb args = JFun f \<and>
           d = Query (arg args 0) req (JBQRYCOUNT lib) (CountCb (JFun f))"
proof -
  obtain orarr hints w' where s: "shuffle args w0 = ((orarr, hints, resolved_cb args), w')"
    by (rule shuffled)
  show ?thesis using assms
    by (auto simp: count_def s Let_def typeof_function split: if_splits prod.splits)
qed

lemma findOne_cb_match:
  assumes "\<not> truthy (arg eargs 0)" and "arg eargs 1 = JCursor c"
    and "pending (cursors w c) = d # ds"
  shows "findOne_cb hb (JFun f) eargs w =
        (hb f [JNull, d],
         w\<lparr>cursors := (cursors w)(c := (cursors w c)
               \<lparr>pending := ds, current := d, closes := Suc (closes (cursors w c))\<rparr>),
           trace := trace w @ [CursorNext c, CursorObject c, Call f [JNull, d], CursorClose c]\<rparr>)"
  using assms by (simp add: findOne_cb_def Let_def split: option.splits)

lemma findOne_cb_empty:
  assumes "\<not> truthy (arg eargs 0)" and "arg eargs 1 = JCursor c"
    and "pending (cursors w c) = []"
  shows "findOne_cb hb (JFun f) eargs w =
        (hb f [JNull, JNull], w\<lparr>trace := trace w @ [CursorNext c, Call f [JNull, JNull]]\<rparr>)"
  using assms by (simp add: findOne_cb_def Let_def)

lemma count_cb_success:
  assumes "\<not> truthy (arg eargs 0)" and "arg eargs 1 = JCursor c"
  shows "count_cb hb (JFun f) eargs w =
        (hb f [JNull, arg eargs 2],
         w\<lparr>cursors := (cursors w)(c := (cursors w c)\<lparr>closes := Suc (closes (cursors w c))\<rparr>),
           trace := trace w @ [CursorClose c, Call f [JNull, arg eargs 2]]\<rparr>)"
  using assms by (simp add: count_cb_def Let_def)

lemma count_cb_failure:
  assumes "truthy (arg eargs 0)"
  shows "count_cb hb (JFun f) eargs w =
        (hb f [arg eargs 0], w\<lparr>trace := trace w @ [Call f [arg eargs 0]]\<rparr>)"
  using assms by (simp add: count_cb_def Let_def)

text \<open>
  Claim C3. Let a call of \<open>findOne\<close> reach the engine, and let the engine answer without
  error and with a cursor that has at least one record. Then the callback advances the
  cursor, calls the handler with \<open>(null, first record)\<close>, and closes the cursor once,
  after the handler; what the handler does, returning or throwing, is what the callback
  does, and the cursor is closed in both cases.
\<close>

theorem findOne_first_match_closes_once:
  assumes "fst (findOne lib args w0) = Inr (Query cn req m k)"
    and "\<not> truthy (arg eargs 0)" and "arg eargs 1 = JCursor c"
    and "pending (cursors w c) = d # ds"
  shows "\<exists>f. resolved_cb args = JFun f \<and> k = FindOneCb (JFun f) \<and>
      invoke hb k eargs w =
        (hb f [JNull, d],
         w\<lparr>cursors := (cursors w)(c := (cursors w c)
               \<lparr>pending := ds, current := d, closes := Suc (closes (cursors w c))\<rparr>),
           trace := trace w @ [CursorNext c, CursorObject c, Call f [JNull, d], CursorClose c]\<rparr>)"
proof -
  obtain w1 where "findOne lib args w0 = (Inr (Query cn req m k), w1)"
    using assms(1) by (metis prod.collapse)
  then obtain f where f: "resolved_cb args = JFun f" "k = FindOneCb (JFun f)"
    using findOne_dispatch by blast
  show ?thesis using f findOne_cb_match [OF assms(2,3,4)] by simp
qed

theorem findOne_first_match_closes_once_witness:
  "fst (findOne example_lib [JStr ''books'', JObj 0, JFun 7] example_world) =
     Inr (Query (JStr ''books'') [JObj 0, JObj 3] 0 (FindOneCb (JFun 7))) \<and>
   \<not> truthy (arg [JNull, JCursor 0] 0) \<and>
   pending (cursors example_world 0) = [JObj 0, JObj 1] \<and>
   fst (invoke failing (FindOneCb (JFun 7)) [JNull, JCursor 0] example_world) =
     Some (Thrown (JStr ''boom'')) \<and>
   trace (snd (invoke failing (FindOneCb (JFun 7)) [JNull, JCursor 0] example_world)) =
     [CursorNext 0, CursorObject 0, Call 7 [JNull, JObj 0], CursorClose 0] \<and>
   closes (cursors (snd (invoke failing (FindOneCb (JFun 7)) [JNull, JCursor 0] example_world)) 0)
     = 1"
proof -
  have h1: "fst (findOne example_lib [JStr ''books'', JObj 0, JFun 7] example_world) =
     Inr (Query (JStr ''books'') [JObj 0, JObj 3] 0 (FindOneCb (JFun 7)))"
    by (simp add: findOne_def shuffle_def arg_def alloc_def default_obj_def Let_def look_def
        concat_js_def example_world_def)
  have h2: "\<not> truthy (arg [JNull, JCursor 0] 0)" by (simp add: arg_def)
  have h3: "arg [JNull, JCursor 0] 1 = JCursor 0" by (simp add: arg_def)
  have h4: "pending (cursors example_world 0) = [JObj 0, JObj 1]"
    by (simp add: example_world_def example_cursors_def)
  show ?thesis
    using findOne_first_match_closes_once [OF h1 h2 h3 h4, of failing] h1 h2 h4
    by (auto simp: failing_def example_world_def example_cursors_def)
qed

text \<open>
  Claim C4. Let a call of \<open>findOne\<close> reach the engine, and let the engine answer without
  error and with a cursor that has no record, so that its first \<open>next()\<close> fails. Then
  the callback calls the handler with \<open>(null, null)\<close> and does nothing else: the cursor
  is not closed (no close is attempted, so none can fail), and the callback ends as the
  handler does.
\<close>

theorem findOne_no_match_no_close:
  assumes "fst (findOne lib args w0) = Inr (Query cn req m k)"
    and "\<not> truthy (arg eargs 0)" and "arg eargs 1 = JCursor c"
    and "pending (cursors w c) = []"
  shows "\<exists>f. resolved_cb args = JFun f \<and> k = FindOneCb (JFun f) \<and>
      invoke hb k eargs w =
        (hb f [JNull, JNull], w\<lparr>trace := trace w @ [CursorNext c, Call f [JNull, JNull]]\<rparr>)"
proof -
  obtain w1 where "findOne lib args w0 = (Inr (Query cn req m k), w1)"
    using assms(1) by (metis prod.collapse)
  then obtain f where f: "resolved_cb args = JFun f" "k = FindOneCb (JFun f)"
    using findOne_dispatch by blast
  show ?thesis using f findOne_cb_empty [OF assms(2,3,4)] by simp
qed

theorem findOne_no_match_no_close_witness:
  "fst (findOne example_lib [JStr ''books'', JObj 0, JFun 7] example_world) =
     Inr (Query (JStr ''books'') [JObj 0, JObj 3] 0 (FindOneCb (JFun 7))) \<and>
   \<not> truthy (arg [JNull, JCursor 1] 0) \<and>
   pending (cursors example_world 1) = [] \<and>
   fst (invoke quiet (FindOneCb (JFun 7)) [JNull, JCursor 1] example_world) = None \<and>
   trace (snd (invoke quiet (FindOneCb (JFun 7)) [JNull, JCursor 1] example_world)) =
     [CursorNext 1, Call 7 [JNull, JNull]] \<and>
   closes (cursors (snd (invoke quiet (FindOneCb (JFun 7)) [JNull, JCursor 1] example_world)) 1)
     = 0"
proof -
  have h1: "fst (findOne example_lib [JStr ''books'', JObj 0, JFun 7] example_world) =
     Inr (Query (JStr ''books'') [JObj 0, JObj 3] 0 (FindOneCb (JFun 7)))"
    by (simp add: findOne_def shuffle_def arg_def alloc_def default_obj_def Let_def look_def
        concat_js_def example_world_def)
  have h2: "\<not> truthy (arg [JNull, JCursor 1] 0)" by (simp add: arg_def)
  have h3: "arg [JNull, JCursor 1] 1 = JCursor 1" by (simp add: arg_def)
  have h4: "pending (cursors example_world 1) = []"
    by (simp add: example_world_def example_cursors_def)
  show ?thesis
    using findOne_no_match_no_close [OF h1 h2 h3 h4, of quiet] h1 h2 h4
    by (auto simp: quiet_def example_world_def example_cursors_def)
qed

text \<open>
  Claim C5. Let a call of \<open>count\<close> reach the engine. When the engine answers without
  error and with a cursor, the callback closes that cursor once and then calls the
  handler with \<open>(null, count)\<close>; when the engine reports an error, the callback calls the
  handler with \<open>(error)\<close> alone and touches no cursor. In neither case is the cursor
  among the handler's arguments.
\<close>

theorem count_closes_cursor_once:
  assumes "fst (count lib args w0) = Inr (Query cn req m k)"
  shows "\<exists>f. resolved_cb args = JFun f \<and> k = CountCb (JFun f) \<and>
      (\<not> truthy (arg eargs 0) \<and> arg eargs 1 = JCursor c \<longrightarrow>
         invoke hb k eargs w =
           (hb f [JNull, arg eargs 2],
            w\<lparr>cursors := (cursors w)(c := (cursors w c)\<lparr>closes := Suc (closes (cursors w c))\<rparr>),
              trace := trace w @ [CursorClose c, Call f [JNull, arg eargs 2]]\<rparr>)) \<and>
      (truthy (arg eargs 0) \<longrightarrow>
         invoke hb k eargs w =
           (hb f [arg eargs 0], w\<lparr>trace := trace w @ [Call f [arg eargs 0]]\<rparr>))"
proof -
  obtain w1 where "count lib args w0 = (Inr (Query cn req m k), w1)"
    using assms(1) by (metis prod.collapse)
  then obtain f where f: "resolved_cb args = JFun f" "k = CountCb (JFun f)"
    using count_dispatch by blast
  show ?thesis using f count_cb_success [of eargs c hb f w] count_cb_failure [of eargs hb f w]
    by simp
qed

theorem count_closes_cursor_once_witness:
  "fst (count example_lib [JStr ''books'', JObj 0, JFun 7] example_world) =
     Inr (Query (JStr ''books'') [JObj 0, JObj 3] 1 (CountCb (JFun 7))) \<and>
   invoke quiet (CountCb (JFun 7)) [JNull, JCursor 0, JNum 2] example_world =
     (None,
      example_world\<lparr>cursors := (cursors example_world)
          (0 := (cursors example_world 0)\<lparr>closes := Suc (closes (cursors example_world 0))\<rparr>),
        trace := trace example_world @ [CursorClose 0, Call 7 [JNull, JNum 2]]\<rparr>) \<and>
   closes (cursors example_world 0) = 0 \<and> trace example_world = [] \<and>
   invoke quiet (CountCb (JFun 7)) [JStr ''failed''] example_world =
     (None, example_world\<lparr>trace := trace example_world @ [Call 7 [JStr ''failed'']]\<rparr>)"
proof -
  have h1: "fst (count example_lib [JStr ''books'', JObj 0, JFun 7] example_world) =
     Inr (Query (JStr ''books'') [JObj 0, JObj 3] 1 (CountCb (JFun 7)))"
    by code_simp
  have a: "\<not> truthy (arg [JNull, JCursor 0, JNum 2] 0) \<and>
      arg [JNull, JCursor 0, JNum 2] 1 = JCursor 0"
    and a2: "arg [JNull, JCursor 0, JNum 2] 2 = JNum 2"
    and b: "truthy (arg [JStr ''failed''] 0)" and b0: "arg [JStr ''failed''] 0 = JStr ''failed''"
    by (simp_all add: arg_def)
  have c: "closes (cursors example_world 0) = 0" "trace example_world = []"
    by (simp_all add: example_world_def example_cursors_def)
  obtain f where f: "CountCb (JFun 7) = CountCb (JFun f)"
    and s: "\<not> truthy (arg [JNull, JCursor 0, JNum 2] 0) \<and>
        arg [JNull, JCursor 0, JNum 2] 1 = JCursor 0 \<longrightarrow>
      invoke quiet (CountCb (JFun 7)) [JNull, JCursor 0, JNum 2] example_world =
        (quiet f [JNull, arg [JNull, JCursor 0, JNum 2] 2],
         example_world\<lparr>cursors := (cursors example_world)
             (0 := (cursors example_world 0)\<lparr>closes := Suc (closes (cursors example_world 0))\<rparr>),
           trace := trace example_world @
             [CursorClose 0, Call f [JNull, arg [JNull, JCursor 0, JNum 2] 2]]\<rparr>)"
    using count_closes_cursor_once [OF h1, of "[JNull, JCursor 0, JNum 2]" 0 quiet example_world]
    by blast
  obtain g where g: "CountCb (JFun 7) = CountCb (JFun g)"
    and e: "truthy (arg [JStr ''failed''] 0) \<longrightarrow>
      invoke quiet (CountCb (JFun 7)) [JStr ''failed''] example_world =
        (quiet g [arg [JStr ''failed''] 0],
         example_world\<lparr>trace := trace example_world @ [Call g [arg [JStr ''failed''] 0]]\<rparr>)"
    using count_closes_cursor_once [OF h1, of "[JStr ''failed'']" 0 quiet example_world]
    by blast
  have f7: "f = 7" and g7: "g = 7" using f g by simp_all
  have 1: "invoke quiet (CountCb (JFun 7)) [JNull, JCursor 0, JNum 2] example_world =
     (None,
      example_world\<lparr>cursors := (cursors example_world)
          (0 := (cursors example_world 0)\<lparr>closes := Suc (closes (cursors example_world 0))\<rparr>),
        trace := trace example_world @ [CursorClose 0, Call 7 [JNull, JNum 2]]\<rparr>)"
    using s a unfolding a2 f7 quiet_def by blast
  have 2: "invoke quiet (CountCb (JFun 7)) [JStr ''failed''] example_world =
     (None, example_world\<lparr>trace := trace example_world @ [Call 7 [JStr ''failed'']]\<rparr>)"
    using e b unfolding b0 g7 quiet_def by blast
  show ?thesis using h1 1 2 c by blast
qed

lemma findOne_hints:
  assumes a: "look w a = Some ps" and cb: "typeof cb = ''function''" and c: "typeof c = ''string''"
    and sh: "shuffle args w = ((orarr, JObj a, cb), w)"
    and a0: "arg args 0 = c"
  shows "\<exists>q' w3. grown w w3 \<and> findOne lib args w =
           (Inr (Query c (concat_js [q'] [orarr, JObj a]) 0 (FindOneCb cb)),
            w3\<lparr>heap := (heap w3)[a := AList.update ''$max'' (JNum 1) ps]\<rparr>)"
proof -
  obtain q' w3 where d2: "default_obj (arg args (Suc 0)) w = (q', w3)" by (metis prod.exhaust)
  have g: "grown w w3" using d2 by (rule grown_default_obj)
  have l3: "look w3 a = Some ps" using g a by (rule grown_look)
  have "findOne lib args w =
           (Inr (Query c (concat_js [q'] [orarr, JObj a]) 0 (FindOneCb cb)),
            w3\<lparr>heap := (heap w3)[a := AList.update ''$max'' (JNum 1) ps]\<rparr>)"
    using cb c a0 by (simp add: findOne_def sh Let_def default_obj_def [of "JObj a"] d2 l3)
  then show ?thesis using g by blast
qed

text \<open>
  Claim C10. When \<open>findOne\<close> is called with a handler, a collection name and a hints
  object of the caller (in third place of four arguments, or in fourth place of five),
  the call returns with a request to the engine whose last element is that very object,
  and in the store the object's \<open>$max\<close> is now 1, whatever it was before; its other
  properties and all other objects of the caller are as they were.
\<close>

theorem findOne_sets_max_on_callers_hints:
  assumes a: "look w a = Some ps" and cb: "typeof cb = ''function''" and c: "typeof c = ''string''"
    and args: "args = [c, q, JObj a, cb] \<or> args = [c, q, ors, JObj a, cb]"
  shows "\<exists>req w'. findOne lib args w = (Inr (Query c req 0 (FindOneCb cb)), w') \<and>
           last req = JObj a \<and>
           look w' a = Some (AList.update ''$max'' (JNum 1) ps) \<and>
           prop_of w' a ''$max'' = JNum 1 \<and>
           (\<forall>k. k \<noteq> ''$max'' \<longrightarrow> prop_of w' a k = prop_of w a k) \<and>
           (\<forall>b. b \<noteq> a \<longrightarrow> look w b \<noteq> None \<longrightarrow> look w' b = look w b)"
proof -
  have "\<exists>orarr. shuffle args w = ((orarr, JObj a, cb), w) \<and> arg args 0 = c"
    using args by (auto simp: shuffle_def arg_def Let_def)
  then obtain orarr where sh: "shuffle args w = ((orarr, JObj a, cb), w)" and a0: "arg args 0 = c"
    by blast
  obtain q' w3 where g: "grown w w3" and r: "findOne lib args w =
           (Inr (Query c (concat_js [q'] [orarr, JObj a]) 0 (FindOneCb cb)),
            w3\<lparr>heap := (heap w3)[a := AList.update ''$max'' (JNum 1) ps]\<rparr>)"
    using findOne_hints [OF a cb c sh a0] by blast
  let ?w' = "w3\<lparr>heap := (heap w3)[a := AList.update ''$max'' (JNum 1) ps]\<rparr>"
  have l3: "look w3 a = Some ps" using g a by (rule grown_look)
  have p3: "\<And>k. prop_of w3 a k = prop_of w a k" by (simp add: prop_of_def l3 a)
  have 1: "last (concat_js [q'] [orarr, JObj a]) = JObj a" by (simp add: concat_js_def)
  have 2: "look ?w' a = Some (AList.update ''$max'' (JNum 1) ps)"
    using l3 by (rule look_update_same)
  have 3: "prop_of ?w' a ''$max'' = JNum 1" using prop_of_update [OF l3] by simp
  have 4: "\<forall>k. k \<noteq> ''$max'' \<longrightarrow> prop_of ?w' a k = prop_of w a k"
    using prop_of_update [OF l3] p3 by simp
  have 5: "\<forall>b. b \<noteq> a \<longrightarrow> look w b \<noteq> None \<longrightarrow> look ?w' b = look w b"
    using grown_look [OF g] by (auto simp: look_update_other)
  show ?thesis using r 1 2 3 4 5 by blast
qed

theorem findOne_sets_max_on_callers_hints_witness:
  "look example_world 1 = Some [(''$max'', JNum 10), (''$skip'', JNum 2)] \<and>
   fst (findOne example_lib [JStr ''books'', JObj 0, JObj 1, JFun 7] example_world) =
     Inr (Query (JStr ''books'') [JObj 0, JObj 1] 0 (FindOneCb (JFun 7))) \<and>
   heap (snd (findOne example_lib [JStr ''books'', JObj 0, JObj 1, JFun 7] example_world)) =
     [[(''name'', JStr ''x'')], [(''$max'', JNum 1), (''$skip'', JNum 2)], []] \<and>
   prop_of (snd (findOne example_lib [JStr ''books'', JObj 0, JObj 1, JFun 7] example_world))
     1 ''$max'' = JNum 1"
proof -
  have h1: "look example_world 1 = Some [(''$max'', JNum 10), (''$skip'', JNum 2)]"
    by (simp add: look_def example_world_def)
  have h2: "typeof (JFun 7) = ''function''" and h3: "typeof (JStr ''books'') = ''string''"
    by simp_all
  have h4: "[JStr ''books'', JObj 0, JObj 1, JFun 7] = [JStr ''books'', JObj 0, JObj 1, JFun 7] \<or>
    [JStr ''books'', JObj 0, JObj 1, JFun 7] = [JStr ''books'', JObj 0, JNull, JObj 1, JFun 7]"
    by simp
  have v1: "fst (findOne example_lib [JStr ''books'', JObj 0, JObj 1, JFun 7] example_world) =
     Inr (Query (JStr ''books'') [JObj 0, JObj 1] 0 (FindOneCb (JFun 7)))"
    by code_simp
  have v2: "heap (snd (findOne example_lib [JStr ''books'', JObj 0, JObj 1, JFun 7]
       example_world)) =
     [[(''name'', JStr ''x'')], [(''$max'', JNum 1), (''$skip'', JNum 2)], []]"
    by code_simp
  obtain req w' where r: "findOne example_lib [JStr ''books'', JObj 0, JObj 1, JFun 7]
        example_world = (Inr (Query (JStr ''books'') req 0 (FindOneCb (JFun 7))), w')"
    and m: "prop_of w' 1 ''$max'' = JNum 1"
    using findOne_sets_max_on_callers_hints [OF h1 h2 h3 h4, of example_lib] by blast
  have w': "snd (findOne example_lib [JStr ''books'', JObj 0, JObj 1, JFun 7] example_world) = w'"
    by (simp only: r snd_conv)
  have v3: "prop_of (snd (findOne example_lib [JStr ''books'', JObj 0, JObj 1, JFun 7]
      example_world)) 1 ''$max'' = JNum 1"
    by (simp only: w' m)
  show ?thesis using h1 v1 v2 v3 by blast
qed

subsection \<open>save\<close>

lemma heap_call_fn: "heap (snd (call_fn hb v xs w)) = heap w"
  by (cases v) simp_all

lemma assign_id_effect:
  "\<exists>w'. assign_id so (JArr oids) i w = (None, w') \<and> same_but_heap w w' \<and>
     (\<forall>a p. p \<noteq> ''_id'' \<longrightarrow> prop_of w' a p = prop_of w a p) \<and>
     (\<forall>a. so \<noteq> JObj a \<longrightarrow> look w' a = look w a) \<and>
     (\<forall>a. so = JObj a \<longrightarrow> a < length (heap w) \<longrightarrow> prop_of w' a ''_id'' = arg oids i) \<and>
     (\<forall>a. so = JObj a \<longrightarrow> prop_of w a ''_id'' = arg oids i \<longrightarrow> w' = w)"
proof (cases so)
  case (JObj a)
  show ?thesis
  proof (cases "look w a")
    case None
    then show ?thesis using JObj
      by (auto simp: assign_id_def same_but_heap_def look_def split: if_splits)
  next
    case (Some ps)
    then show ?thesis using JObj
      by (auto simp: assign_id_def same_but_heap_def prop_of_update look_update_other)
  qed
qed (simp_all add: assign_id_def same_but_heap_def)

text \<open>
  The loop of the callback of \<open>save\<close>, run over the positions below \<open>n\<close> from the last
  to the first. An object that occurs at several positions ends with the identifier of
  its first position, which is assigned last.
\<close>

lemma assign_ids_effect:
  "n \<le> length jsarr \<Longrightarrow>
   \<exists>w'. assign_ids jsarr (JArr oids) n w = (None, w') \<and> same_but_heap w w' \<and>
     (\<forall>a p. p \<noteq> ''_id'' \<longrightarrow> prop_of w' a p = prop_of w a p) \<and>
     (\<forall>i a. i < n \<longrightarrow> jsarr ! i = JObj a \<longrightarrow> a < length (heap w) \<longrightarrow>
        (\<forall>j<i. jsarr ! j \<noteq> JObj a) \<longrightarrow> prop_of w' a ''_id'' = arg oids i) \<and>
     (\<forall>a. (\<forall>j<n. jsarr ! j = JObj a \<longrightarrow> prop_of w a ''_id'' = arg oids j) \<longrightarrow>
        look w' a = look w a)"
proof (induction n arbitrary: w)
  case 0
  then show ?case by (simp add: same_but_heap_def)
next
  case (Suc n)
  let ?so = "jsarr ! n"
  have n: "n < length jsarr" "n \<le> length jsarr" using Suc.prems by simp_all
  obtain w1 where s1: "assign_id ?so (JArr oids) n w = (None, w1)" and f1: "same_but_heap w w1"
    and o1: "\<forall>a p. p \<noteq> ''_id'' \<longrightarrow> prop_of w1 a p = prop_of w a p"
    and u1: "\<forall>a. ?so \<noteq> JObj a \<longrightarrow> look w1 a = look w a"
    and i1: "\<forall>a. ?so = JObj a \<longrightarrow> a < length (heap w) \<longrightarrow> prop_of w1 a ''_id'' = arg oids n"
    and e1: "\<forall>a. ?so = JObj a \<longrightarrow> prop_of w a ''_id'' = arg oids n \<longrightarrow> w1 = w"
    using assign_id_effect [of ?so oids n w] by blast
  obtain w' where s2: "assign_ids jsarr (JArr oids) n w1 = (None, w')"
    and f2: "same_but_heap w1 w'"
    and o2: "\<forall>a p. p \<noteq> ''_id'' \<longrightarrow> prop_of w' a p = prop_of w1 a p"
    and i2: "\<forall>i a. i < n \<longrightarrow> jsarr ! i = JObj a \<longrightarrow> a < length (heap w1) \<longrightarrow>
        (\<forall>j<i. jsarr ! j \<noteq> JObj a) \<longrightarrow> prop_of w' a ''_id'' = arg oids i"
    and e2: "\<forall>a. (\<forall>j<n. jsarr ! j = JObj a \<longrightarrow> prop_of w1 a ''_id'' = arg oids j) \<longrightarrow>
        look w' a = look w1 a"
    using Suc.IH [OF n(2), of w1] by blast
  have len: "length (heap w1) = length (heap w)" using f1 by (simp add: same_but_heap_def)
  have run: "assign_ids jsarr (JArr oids) (Suc n) w = (None, w')"
    using n(1) s1 s2 by (simp add: arg_def)
  have frame: "same_but_heap w w'" using f1 f2 by (simp add: same_but_heap_def)
  have other: "\<forall>a p. p \<noteq> ''_id'' \<longrightarrow> prop_of w' a p = prop_of w a p" using o1 o2 by simp
  have ids: "prop_of w' a ''_id'' = arg oids i"
    if i: "i < Suc n" and at: "jsarr ! i = JObj a" and lv: "a < length (heap w)"
      and first: "\<forall>j<i. jsarr ! j \<noteq> JObj a" for i a
  proof (cases "i = n")
    case True
    have "\<forall>j<n. jsarr ! j = JObj a \<longrightarrow> prop_of w1 a ''_id'' = arg oids j"
      using first True by simp
    then have "look w' a = look w1 a" using e2 by blast
    then have "prop_of w' a ''_id'' = prop_of w1 a ''_id''" by (simp add: prop_of_def)
    then show ?thesis using i1 at lv True by simp
  next
    case False
    then have "i < n" using i by simp
    then show ?thesis using i2 at lv first len by simp
  qed
  have unchanged: "look w' a = look w a"
    if eq: "\<forall>j<Suc n. jsarr ! j = JObj a \<longrightarrow> prop_of w a ''_id'' = arg oids j" for a
  proof -
    have l1: "look w1 a = look w a"
    proof (cases "?so = JObj a")
      case True
      then have "w1 = w" using e1 eq by simp
      then show ?thesis by simp
    next
      case False
      then show ?thesis using u1 by simp
    qed
    then have "prop_of w1 a ''_id'' = prop_of w a ''_id''" by (simp add: prop_of_def)
    then have "\<forall>j<n. jsarr ! j = JObj a \<longrightarrow> prop_of w1 a ''_id'' = arg oids j"
      using eq by simp
    then show ?thesis using e2 l1 by simp
  qed
  show ?case using run frame other ids unchanged by blast
qed

lemma save_dispatch:
  assumes "fst (save args w0) = Inr (Some (Save cn docs opts k))"
  shows "docs = (case arg args 1 of JArr xs \<Rightarrow> xs | v \<Rightarrow> [v]) \<and>
         k = SaveCb docs (if typeof (arg args 2) = ''function'' then arg args 2 else arg args 3)"
  using assms
  by (auto simp: save_def Let_def alloc_def split: if_splits prod.splits)

text \<open>
  Claim C6. Let \<open>save\<close> hand the batch \<open>docs\<close> to the engine (the caller's array, or
  the single document in an array of its own), and let the engine answer without error
  and with the array \<open>oids\<close>. Then the callback changes the caller's objects in the
  store as follows. A stored document at position \<open>i\<close> has \<open>_id\<close> equal to \<open>oids[i]\<close>
  afterwards, also when it had no \<open>_id\<close> before (\<open>i\<close> is the first position of the
  object, as it is for every position of a batch of different objects). No property other
  than \<open>_id\<close> changes in any object. An object that already carries the returned
  identifier at each position where it occurs, and every object outside the batch, is
  left exactly as it was.
\<close>

theorem save_assigns_identifiers:
  assumes "fst (save args w0) = Inr (Some (Save cn docs opts k))"
    and "\<not> truthy (arg eargs 0)" and "arg eargs 1 = JArr oids"
  shows "docs = (case arg args 1 of JArr xs \<Rightarrow> xs | v \<Rightarrow> [v]) \<and>
    (\<exists>r w'. invoke hb k eargs w = (r, w') \<and> length (heap w') = length (heap w) \<and>
      (\<forall>i a. i < length docs \<longrightarrow> docs ! i = JObj a \<longrightarrow> a < length (heap w) \<longrightarrow>
         (\<forall>j<i. docs ! j \<noteq> JObj a) \<longrightarrow> prop_of w' a ''_id'' = arg oids i) \<and>
      (\<forall>a p. p \<noteq> ''_id'' \<longrightarrow> prop_of w' a p = prop_of w a p) \<and>
      (\<forall>a. (\<forall>j<length docs. docs ! j = JObj a \<longrightarrow> prop_of w a ''_id'' = arg oids j) \<longrightarrow>
         look w' a = look w a))"
proof -
  obtain cb where d: "docs = (case arg args 1 of JArr xs \<Rightarrow> xs | v \<Rightarrow> [v])"
    and k: "k = SaveCb docs cb"
    using save_dispatch [OF assms(1)] by blast
  obtain w1 where l: "assign_ids docs (JArr oids) (length docs) w = (None, w1)"
    and f: "same_but_heap w w1"
    and o: "\<forall>a p. p \<noteq> ''_id'' \<longrightarrow> prop_of w1 a p = prop_of w a p"
    and i: "\<forall>i a. i < length docs \<longrightarrow> docs ! i = JObj a \<longrightarrow> a < length (heap w) \<longrightarrow>
        (\<forall>j<i. docs ! j \<noteq> JObj a) \<longrightarrow> prop_of w1 a ''_id'' = arg oids i"
    and e: "\<forall>a. (\<forall>j<length docs. docs ! j = JObj a \<longrightarrow> prop_of w a ''_id'' = arg oids j) \<longrightarrow>
        look w1 a = look w a"
    using assign_ids_effect [of "length docs" docs oids w] by blast
  define r where "r = fst (save_cb hb docs cb eargs w)"
  define w' where "w' = snd (save_cb hb docs cb eargs w)"
  have h: "heap w' = heap w1"
    unfolding w'_def using assms(2,3) l by (simp add: save_cb_def Let_def heap_call_fn)
  have p: "prop_of w' = prop_of w1" and lk: "look w' = look w1"
    using h by (simp_all add: prop_of_def look_def fun_eq_iff)
  have 0: "invoke hb k eargs w = (r, w')" by (simp add: k r_def w'_def)
  have 1: "length (heap w') = length (heap w)" using h f by (simp add: same_but_heap_def)
  have 2: "\<forall>i a. i < length docs \<longrightarrow> docs ! i = JObj a \<longrightarrow> a < length (heap w) \<longrightarrow>
         (\<forall>j<i. docs ! j \<noteq> JObj a) \<longrightarrow> prop_of w' a ''_id'' = arg oids i"
    unfolding p by (rule i)
  have 3: "\<forall>a p. p \<noteq> ''_id'' \<longrightarrow> prop_of w' a p = prop_of w a p"
    unfolding p by (rule o)
  have 4: "\<forall>a. (\<forall>j<length docs. docs ! j = JObj a \<longrightarrow> prop_of w a ''_id'' = arg oids j) \<longrightarrow>
         look w' a = look w a"
    unfolding lk by (rule e)
  have "\<exists>r w'. invoke hb k eargs w = (r, w') \<and> length (heap w') = length (heap w) \<and>
      (\<forall>i a. i < length docs \<longrightarrow> docs ! i = JObj a \<longrightarrow> a < length (heap w) \<longrightarrow>
         (\<forall>j<i. docs ! j \<noteq> JObj a) \<longrightarrow> prop_of w' a ''_id'' = arg oids i) \<and>
      (\<forall>a p. p \<noteq> ''_id'' \<longrightarrow> prop_of w' a p = prop_of w a p) \<and>
      (\<forall>a. (\<forall>j<length docs. docs ! j = JObj a \<longrightarrow> prop_of w a ''_id'' = arg oids j) \<longrightarrow>
         look w' a = look w a)"
    by (rule exI [of _ r], rule exI [of _ w']) (intro conjI 0 1 2 3 4)
  then show ?thesis using d by (rule conjI [rotated])
qed

theorem save_assigns_identifiers_witness:
  "fst (save [JStr ''books'', JArr [JObj 0, JObj 2], JFun 7] example_world) =
     Inr (Some (Save (JStr ''books'') [JObj 0, JObj 2] (JObj 3)
       (SaveCb [JObj 0, JObj 2] (JFun 7)))) \<and>
   \<not> truthy (arg [JNull, JArr [JStr ''id0'', JStr ''id2'']] 0) \<and>
   heap (snd (invoke quiet (SaveCb [JObj 0, JObj 2] (JFun 7))
      [JNull, JArr [JStr ''id0'', JStr ''id2'']] example_world)) =
     [[(''name'', JStr ''x''), (''_id'', JStr ''id0'')],
      [(''$max'', JNum 10), (''$skip'', JNum 2)],
      [(''_id'', JStr ''id2'')]] \<and>
   prop_of (snd (invoke quiet (SaveCb [JObj 0, JObj 2] (JFun 7))
      [JNull, JArr [JStr ''id0'', JStr ''id2'']] example_world)) 2 ''_id'' = JStr ''id2''"
proof -
  let ?eargs = "[JNull, JArr [JStr ''id0'', JStr ''id2'']]"
  let ?k = "SaveCb [JObj 0, JObj 2] (JFun 7)"
  have h1: "fst (save [JStr ''books'', JArr [JObj 0, JObj 2], JFun 7] example_world) =
     Inr (Some (Save (JStr ''books'') [JObj 0, JObj 2] (JObj 3) ?k))"
    by code_simp
  have h2: "\<not> truthy (arg ?eargs 0)" by (simp add: arg_def)
  have h3: "arg ?eargs 1 = JArr [JStr ''id0'', JStr ''id2'']" by (simp add: arg_def)
  have v: "heap (snd (invoke quiet ?k ?eargs example_world)) =
     [[(''name'', JStr ''x''), (''_id'', JStr ''id0'')],
      [(''$max'', JNum 10), (''$skip'', JNum 2)],
      [(''_id'', JStr ''id2'')]]"
    by code_simp
  have "\<exists>r w'. invoke quiet ?k ?eargs example_world = (r, w') \<and>
      length (heap w') = length (heap example_world) \<and>
      (\<forall>i a. i < length [JObj 0, JObj 2] \<longrightarrow> [JObj 0, JObj 2] ! i = JObj a \<longrightarrow>
         a < length (heap example_world) \<longrightarrow>
         (\<forall>j<i. [JObj 0, JObj 2] ! j \<noteq> JObj a) \<longrightarrow>
         prop_of w' a ''_id'' = arg [JStr ''id0'', JStr ''id2''] i) \<and>
      (\<forall>a p. p \<noteq> ''_id'' \<longrightarrow> prop_of w' a p = prop_of example_world a p) \<and>
      (\<forall>a. (\<forall>j<length [JObj 0, JObj 2]. [JObj 0, JObj 2] ! j = JObj a \<longrightarrow>
            prop_of example_world a ''_id'' = arg [JStr ''id0'', JStr ''id2''] j) \<longrightarrow>
         look w' a = look example_world a)"
    using save_assigns_identifiers [OF h1 h2 h3, of quiet example_world] by (rule conjunct2)
  then obtain r w' where inv: "invoke quiet ?k ?eargs example_world = (r, w')"
    and ids: "\<forall>i a. i < length [JObj 0, JObj 2] \<longrightarrow> [JObj 0, JObj 2] ! i = JObj a \<longrightarrow>
         a < length (heap example_world) \<longrightarrow>
         (\<forall>j<i. [JObj 0, JObj 2] ! j \<noteq> JObj a) \<longrightarrow>
         prop_of w' a ''_id'' = arg [JStr ''id0'', JStr ''id2''] i"
    by (elim exE conjE)
  have c: "(1::nat) < length [JObj 0, JObj 2]" "[JObj 0, JObj 2] ! 1 = JObj 2"
    "2 < length (heap example_world)" "\<forall>j<1::nat. [JObj 0, JObj 2] ! j \<noteq> JObj 2"
    "arg [JStr ''id0'', JStr ''id2''] 1 = JStr ''id2''"
    by (simp_all add: example_world_def arg_def)
  have "prop_of w' 2 ''_id'' = arg [JStr ''id0'', JStr ''id2''] 1"
    using ids [THEN spec, of 1, THEN spec, of 2] c(1,2,3,4) by (simp only:)
  then have "prop_of w' 2 ''_id'' = JStr ''id2''" by (simp only: c(5))
  moreover have "snd (invoke quiet ?k ?eargs example_world) = w'" by (simp only: inv snd_conv)
  ultimately have p: "prop_of (snd (invoke quiet ?k ?eargs example_world)) 2 ''_id'' = JStr ''id2''"
    by (simp only:)
  show ?thesis by (intro conjI h1 h2 v p)
qed

subsection \<open>How often the handler is called\<close>

lemma set_prop_trace: "trace (snd (set_prop v p x w)) = trace w"
  by (cases v) (auto split: option.splits)

lemma snd_dispatched: "snd (dispatched r) = snd r"
  by (cases r rule: dispatched.cases) simp_all

lemma find_trace: "trace (snd (find_ejdb lib args w)) = trace w"
proof -
  obtain orarr hints w1 where s: "shuffle args w = ((orarr, hints, resolved_cb args), w1)"
    and g: "grown w w1"
    by (rule shuffled)
  obtain h2 w2 where d1: "default_obj hints w1 = (h2, w2)" by (metis prod.exhaust)
  obtain q3 w3 where d2: "default_obj (arg args (Suc 0)) w2 = (q3, w3)" by (metis prod.exhaust)
  have "grown w w3"
    using g grown_default_obj [OF d1] grown_default_obj [OF d2] by (blast intro: grown_trans)
  then have "trace w1 = trace w" "trace w3 = trace w" using g by (simp_all add: grown_def)
  then show ?thesis by (simp add: find_ejdb_def s d1 d2 Let_def split: sum.splits)
qed

lemma findOne_trace: "trace (snd (findOne lib args w)) = trace w"
proof -
  obtain orarr hints w1 where s: "shuffle args w = ((orarr, hints, resolved_cb args), w1)"
    and g: "grown w w1"
    by (rule shuffled)
  obtain h2 w2 where d1: "default_obj hints w1 = (h2, w2)" by (metis prod.exhaust)
  obtain q3 w3 where d2: "default_obj (arg args (Suc 0)) w2 = (q3, w3)" by (metis prod.exhaust)
  obtain r w4 where sp: "set_prop h2 ''$max'' (JNum 1) w3 = (r, w4)" by (metis prod.exhaust)
  have "grown w w3"
    using g grown_default_obj [OF d1] grown_default_obj [OF d2] by (blast intro: grown_trans)
  then have t: "trace w1 = trace w" "trace w3 = trace w" using g by (simp_all add: grown_def)
  have "trace w4 = trace w3" using set_prop_trace [of h2 "''$max''" "JNum 1" w3] sp by simp
  then show ?thesis using t by (simp add: findOne_def s d1 d2 sp Let_def split: option.splits)
qed

lemma update_trace: "trace (snd (update lib args w)) = trace w"
proof -
  obtain orarr hints w1 where s: "shuffle args w = ((orarr, hints, resolved_cb args), w1)"
    and g: "grown w w1"
    by (rule shuffled)
  obtain h2 w2 where d1: "default_obj hints w1 = (h2, w2)" by (metis prod.exhaust)
  obtain q3 w3 where d2: "default_obj (arg args (Suc 0)) w2 = (q3, w3)" by (metis prod.exhaust)
  have "grown w w3"
    using g grown_default_obj [OF d1] grown_default_obj [OF d2] by (blast intro: grown_trans)
  then have "trace w1 = trace w" "trace w3 = trace w" using g by (simp_all add: grown_def)
  then show ?thesis by (simp add: update_def s d1 d2 Let_def)
qed

lemma count_trace: "trace (snd (count lib args w)) = trace w"
proof -
  obtain orarr hints w1 where s: "shuffle args w = ((orarr, hints, resolved_cb args), w1)"
    and g: "grown w w1"
    by (rule shuffled)
  obtain h2 w2 where d1: "default_obj hints w1 = (h2, w2)" by (metis prod.exhaust)
  obtain q3 w3 where d2: "default_obj (arg args (Suc 0)) w2 = (q3, w3)" by (metis prod.exhaust)
  have "grown w w3"
    using g grown_default_obj [OF d1] grown_default_obj [OF d2] by (blast intro: grown_trans)
  then have "trace w1 = trace w" "trace w3 = trace w" using g by (simp_all add: grown_def)
  then show ?thesis by (simp add: count_def s d1 d2 Let_def)
qed

lemma save_trace: "trace (snd (save args w)) = trace w"
  by (simp add: save_def Let_def alloc_def split: prod.splits)

lemma call_op_trace: "trace (snd (call_op lib m args w)) = trace w"
  by (cases m)
     (simp_all add: snd_dispatched find_trace findOne_trace update_trace count_trace save_trace)

lemma save_cb_calls:
  assumes "truthy (arg eargs 0) \<or> is_array (arg eargs 1)"
  shows "\<exists>xs r w'. save_cb hb jsarr (JFun f) eargs w = (r, w') \<and>
           calls (trace w') = calls (trace w) @ [Call f xs]"
proof (cases "truthy (arg eargs 0)")
  case True
  then show ?thesis by (simp add: save_cb_def Let_def calls_def)
next
  case False
  then obtain oids where o: "arg eargs 1 = JArr oids" using assms is_array_conv by blast
  obtain w1 where l: "assign_ids jsarr (JArr oids) (length jsarr) w = (None, w1)"
    and t: "same_but_heap w w1"
    using assign_ids_effect [of "length jsarr" jsarr oids w] by auto
  show ?thesis using False o l t by (simp add: save_cb_def Let_def calls_def same_but_heap_def)
qed

lemma findOne_cb_calls:
  assumes "truthy (arg eargs 0) \<or> is_cursor (arg eargs 1)"
  shows "\<exists>xs r w'. findOne_cb hb (JFun f) eargs w = (r, w') \<and>
           calls (trace w') = calls (trace w) @ [Call f xs]"
proof (cases "truthy (arg eargs 0)")
  case True
  then show ?thesis by (simp add: findOne_cb_def Let_def calls_def)
next
  case False
  then obtain c where c: "arg eargs 1 = JCursor c" using assms is_cursor_conv by blast
  show ?thesis
  proof (cases "pending (cursors w c)")
    case Nil
    show ?thesis using findOne_cb_empty [OF False c Nil] by (simp add: calls_def)
  next
    case (Cons d ds)
    show ?thesis using findOne_cb_match [OF False c Cons] by (simp add: calls_def)
  qed
qed

lemma count_cb_calls:
  assumes "truthy (arg eargs 0) \<or> is_cursor (arg eargs 1)"
  shows "\<exists>xs r w'. count_cb hb (JFun f) eargs w = (r, w') \<and>
           calls (trace w') = calls (trace w) @ [Call f xs]"
proof (cases "truthy (arg eargs 0)")
  case True
  then show ?thesis using count_cb_failure [OF True] by (simp add: calls_def)
next
  case False
  then obtain c where c: "arg eargs 1 = JCursor c" using assms is_cursor_conv by blast
  show ?thesis using count_cb_success [OF False c] by (simp add: calls_def)
qed

lemma invoke_calls_once:
  assumes "handler_of k = JFun f" and "engine_ok k eargs"
  shows "\<exists>xs r w'. invoke hb k eargs w = (r, w') \<and>
           calls (trace w') = calls (trace w) @ [Call f xs]"
proof (cases k)
  case (UserCb cb)
  then show ?thesis using assms by (simp add: calls_def)
next
  case EmptyCb
  then show ?thesis using assms by simp
next
  case (SaveCb jsarr cb)
  then show ?thesis using assms save_cb_calls by simp
next
  case (FindOneCb cb)
  then show ?thesis using assms findOne_cb_calls by simp
next
  case (UpdateCb cb)
  then show ?thesis using assms by (simp add: update_cb_fun calls_def)
next
  case (CountCb cb)
  then show ?thesis using assms count_cb_calls by simp
qed

text \<open>
  Claim C7, as stated: every public operation called with a terminal handler calls that
  handler exactly once, provided the engine invokes its callback once. It fails for
  \<open>save\<close>: called with a handler but with \<open>null\<close> in place of the documents, \<open>save\<close>
  returns at once, makes no request to the engine, and the handler is never called.
\<close>

theorem save_without_documents_never_calls_handler:
  "arg [JStr ''books'', JNull, JFun 7] 2 = JFun 7 \<and>
   fst (call_op example_lib M_save [JStr ''books'', JNull, JFun 7] example_world) = Inr None \<and>
   fst (run quiet example_lib M_save [JStr ''books'', JNull, JFun 7] [JNull, JArr []]
     example_world) = None \<and>
   calls (trace (snd (run quiet example_lib M_save [JStr ''books'', JNull, JFun 7]
     [JNull, JArr []] example_world))) = []"
  by (simp add: arg_def run_def save_def calls_def example_world_def)

text \<open>
  Claim C7, amended: whenever a call of a public operation hands a request to the engine
  and the callback of that request ends in a callable handler of the caller, one
  invocation of the callback by the engine, with arguments of the engine's shape, calls
  that handler exactly once, on the failure path or on the success path.
\<close>

theorem handler_called_once_per_request:
  assumes "fst (call_op lib m args w) = Inr (Some d)"
    and "handler_of (callback_of d) = JFun f"
    and "engine_ok (callback_of d) eargs"
  shows "\<exists>xs. calls (trace (snd (run hb lib m args eargs w))) = calls (trace w) @ [Call f xs]"
proof -
  obtain w1 where c: "call_op lib m args w = (Inr (Some d), w1)"
    using assms(1) by (metis prod.collapse)
  have t: "trace w1 = trace w" using call_op_trace [of lib m args w] c by simp
  obtain xs r w' where i: "invoke hb (callback_of d) eargs w1 = (r, w')"
    and n: "calls (trace w') = calls (trace w1) @ [Call f xs]"
    using invoke_calls_once [OF assms(2,3)] by blast
  have "run hb lib m args eargs w = (r, w')" by (simp add: run_def c i)
  then show ?thesis using n t by simp
qed

theorem handler_called_once_per_request_witness:
  "fst (call_op example_lib M_save [JStr ''books'', JArr [JObj 0], JFun 7] example_world) =
     Inr (Some (Save (JStr ''books'') [JObj 0] (JObj 3) (SaveCb [JObj 0] (JFun 7)))) \<and>
   handler_of (SaveCb [JObj 0] (JFun 7)) = JFun 7 \<and>
   engine_ok (SaveCb [JObj 0] (JFun 7)) [JNull, JArr [JStr ''id0'']] \<and>
   calls (trace example_world) = [] \<and>
   length (calls (trace (snd (run failing example_lib M_save
     [JStr ''books'', JArr [JObj 0], JFun 7] [JNull, JArr [JStr ''id0'']] example_world)))) = 1 \<and>
   calls (trace (snd (run failing example_lib M_save
     [JStr ''books'', JArr [JObj 0], JFun 7] [JNull, JArr [JStr ''id0'']] example_world))) =
     [Call 7 [JNull, JArr [JStr ''id0'']]]"
proof -
  let ?d = "Save (JStr ''books'') [JObj 0] (JObj 3) (SaveCb [JObj 0] (JFun 7))"
  have h1: "fst (call_op example_lib M_save [JStr ''books'', JArr [JObj 0], JFun 7]
      example_world) = Inr (Some ?d)"
    by code_simp
  have h2: "handler_of (callback_of ?d) = JFun 7" by simp
  have h3: "engine_ok (callback_of ?d) [JNull, JArr [JStr ''id0'']]" by (simp add: arg_def)
  have e: "calls (trace example_world) = []" by (simp add: calls_def example_world_def)
  obtain xs where x: "calls (trace (snd (run failing example_lib M_save
     [JStr ''books'', JArr [JObj 0], JFun 7] [JNull, JArr [JStr ''id0'']] example_world))) =
     calls (trace example_world) @ [Call 7 xs]"
    using handler_called_once_per_request [OF h1 h2 h3, of failing] by blast
  have l: "length (calls (trace (snd (run failing example_lib M_save
     [JStr ''books'', JArr [JObj 0], JFun 7] [JNull, JArr [JStr ''id0'']] example_world)))) = 1"
    by (simp only: x e) simp
  have v: "calls (trace (snd (run failing example_lib M_save
     [JStr ''books'', JArr [JObj 0], JFun 7] [JNull, JArr [JStr ''id0'']] example_world))) =
     [Call 7 [JNull, JArr [JStr ''id0'']]]"
    by code_simp
  show ?thesis using h1 h2 h3 e l v by simp
qed

end
